theory Spec2Isabelle
  imports Complex_Main
begin

section \<open>Python values, exceptions and the world outside the program\<close>

text \<open>
  An exception is its class name together with \<open>str(e)\<close>. A Python function that may
  raise returns \<open>exn + 'a\<close>, with \<open>Inl\<close> for the exception that leaves the function.
\<close>

datatype exn = Exn (exn_class: string) (exn_msg: string)

text \<open>
  The classes of Python's hierarchy that derive from \<open>BaseException\<close> without deriving from
  \<open>Exception\<close>. A handler \<open>except Exception\<close> catches an exception of any other class and
  lets these pass to the caller. \<open>RAGSystem.query\<close> is modelled with this distinction. The
  handlers around the single model call in \<open>RAGSystem.generate\<close>, \<open>QueryRewriter.generate\<close>,
  \<open>generate_questions\<close> and the judge step are modelled for the failures they delimit: there
  a failed call stands for an exception that derives from \<open>Exception\<close>.
\<close>

definition outside_Exception :: "string list" where
  "outside_Exception =
     [''BaseException'', ''BaseExceptionGroup'', ''GeneratorExit'', ''KeyboardInterrupt'',
      ''SystemExit'', ''CancelledError'']"

definition is_Exception :: "exn \<Rightarrow> bool" where
  "is_Exception e = (exn_class e \<notin> set outside_Exception)"

text \<open>
  The values \<open>json.loads\<close> produces. A finite float is the real number it denotes; on every
  path below a float is used only for its truth value and for not being a container.
\<close>

datatype json =
    JNull
  | JBool bool
  | JInt int
  | JFloat real
  | JStr string
  | JArr "json list"
  | JObj "(string \<times> json) list"


text \<open>An optional string argument (\<open>None\<close> or a \<open>str\<close>) is true when it is a non-empty string.\<close>

fun truthy_str :: "string option \<Rightarrow> bool" where
  "truthy_str None = False"
| "truthy_str (Some s) = (s \<noteq> [])"


definition digit_char :: "nat \<Rightarrow> char" where
  "digit_char n = ''0123456789'' ! (n mod 10)"

text \<open>\<open>str(n)\<close> of a non-negative integer, as the f-strings of the log messages print it.\<close>

fun show_nat :: "nat \<Rightarrow> string" where
  "show_nat n =
     (if n < 10 then [digit_char n] else show_nat (n div 10) @ [digit_char (n mod 10)])"

declare show_nat.simps [simp del]

text \<open>A retrieved document; the code reads only \<open>doc['content']\<close>.\<close>

record doc =
  content :: string

text \<open>
  What \<open>get_transcript\<close> hands back: the \<open>'text'\<close> of every entry under \<open>'transcript'\<close>
  (\<open>None\<close> when that key is absent) and the \<open>'metadata'\<close> dictionary.
\<close>

record transcript_data =
  transcript :: "string list option"
  metadata :: "(string \<times> json) list"

record video_data =
  vd_video_id :: string
  vd_title :: json
  vd_author :: json
  vd_upload_date :: json
  vd_view_count :: int
  vd_like_count :: int
  vd_comment_count :: int
  vd_video_duration :: json

text \<open>A row of the ground-truth table and a row of the evaluation table.\<close>

type_synonym gt_row = "string \<times> string"

record evaluation =
  ev_video_id :: string
  ev_question :: string
  ev_answer :: string
  ev_relevance :: string
  ev_explanation :: string

text \<open>External calls that return nothing: each one either completes or raises.\<close>

datatype action =
    AddVideo video_data
  | ProcessTranscript string transcript_data
  | AddElasticsearchIndex json string int
  | MakeDirs string
  | ToCsv string "(string \<times> json) list"
  | StoreEvaluations string "evaluation list"

datatype level = ERROR | WARNING | INFO

datatype st_kind = StError | StWarning | StSuccess | StInfo

text \<open>Everything the program does to the outside, in the order it does it.\<close>

datatype event =
    Chat string string
  | Search string nat string string
  | GetIndex string string
  | GetTranscript string
  | Did action
  | BuildIndex string
  | AddEmbeddingModel string string
  | GetVideo string
  | ReadCsv string
  | Sleep nat
  | Log level string
  | Print string
  | St st_kind string
  | Progress nat nat

text \<open>
  The state threaded through the program: how many external calls have been answered so
  far, and the trace of events, oldest first.
\<close>

record world =
  calls :: nat
  events :: "event list"

text \<open>
  The collaborators, which are not part of the sources: the model-serving endpoint, the
  search engine, the database handler, the transcript source, NumPy's random generators and
  the Python library. A call that talks to the outside is answered according to its position
  \<open>calls w\<close> in the run and its arguments; the library functions are pure.
  \<open>seeded_permutation seed k\<close> is \<open>numpy.random.RandomState(seed).permutation(k)\<close>, a function
  of the seed; \<open>global_permutation c k\<close> is \<open>numpy.random.permutation(k)\<close> under the state the
  global generator has at position \<open>c\<close> of the run.
\<close>

record env =
  ollama_chat :: "nat \<Rightarrow> string \<Rightarrow> string \<Rightarrow> exn + string"
  dp_search :: "nat \<Rightarrow> string \<Rightarrow> nat \<Rightarrow> string \<Rightarrow> string \<Rightarrow> exn + doc list"
  db_get_index :: "nat \<Rightarrow> string \<Rightarrow> string \<Rightarrow> exn + string option"
  get_transcript :: "nat \<Rightarrow> string \<Rightarrow> exn + transcript_data option"
  perform :: "nat \<Rightarrow> action \<Rightarrow> exn option"
  dp_build_index :: "nat \<Rightarrow> string \<Rightarrow> exn + string"
  db_add_embedding_model :: "nat \<Rightarrow> string \<Rightarrow> string \<Rightarrow> exn + int"
  db_get_video :: "nat \<Rightarrow> string \<Rightarrow> exn + json list option"
  read_csv :: "nat \<Rightarrow> string \<Rightarrow> exn + gt_row list"
  seeded_permutation :: "int \<Rightarrow> nat \<Rightarrow> nat list"
  global_permutation :: "nat \<Rightarrow> nat \<Rightarrow> nat list"
  json_loads :: "string \<Rightarrow> exn + json"
  py_repr :: "json \<Rightarrow> string"
  py_int :: "json \<Rightarrow> exn + int"

definition emit :: "event \<Rightarrow> world \<Rightarrow> world" where
  "emit e w = w\<lparr>events := events w @ [e]\<rparr>"

text \<open>An external call is recorded in the trace and moves the call counter on.\<close>

definition called :: "event \<Rightarrow> world \<Rightarrow> world" where
  "called e w = w\<lparr>calls := Suc (calls w), events := events w @ [e]\<rparr>"

definition chat :: "env \<Rightarrow> string \<Rightarrow> string \<Rightarrow> world \<Rightarrow> (exn + string) \<times> world" where
  "chat env model prompt w = (ollama_chat env (calls w) model prompt, called (Chat model prompt) w)"



section \<open>rag.py\<close>

text \<open>The fields of \<open>RAGSystem\<close> the methods read, set in \<open>__init__\<close> from the environment.\<close>

record rag_system =
  rag_model :: string
  max_retries :: int

subsection \<open>RAGSystem.generate\<close>

text \<open>
  The loop \<open>for attempt in range(self.max_retries)\<close> over the attempts still to make.
  A successful call returns its text at once; a failed one is logged, and then either the
  method returns \<open>None\<close> (on the attempt numbered \<open>max_retries - 1\<close>) or sleeps
  \<open>2 ** attempt\<close> and goes on. A loop that runs out returns \<open>None\<close> as well.
\<close>

fun generate_loop ::
  "env \<Rightarrow> rag_system \<Rightarrow> string \<Rightarrow> nat list \<Rightarrow> world \<Rightarrow> (exn + string option) \<times> world" where
  "generate_loop env self prompt [] w = (Inr None, w)"
| "generate_loop env self prompt (attempt # rest) w =
     (case chat env (rag_model self) prompt w of
        (Inr text, w1) \<Rightarrow>
          (Inr (Some text), emit (Print (''Printing the response from OLLAMA: '' @ text)) w1)
      | (Inl e, w1) \<Rightarrow>
          (let w2 = emit (Log ERROR (''Error generating response on attempt ''
                       @ show_nat (attempt + 1) @ '': '' @ exn_msg e)) w1
           in if int attempt = max_retries self - 1
              then (Inr None,
                    emit (Log ERROR ''All retries exhausted. Unable to generate response.'') w2)
              else generate_loop env self prompt rest (emit (Sleep (2 ^ attempt)) w2)))"

definition generate ::
  "env \<Rightarrow> rag_system \<Rightarrow> string \<Rightarrow> world \<Rightarrow> (exn + string option) \<times> world" where
  "generate env self prompt w = generate_loop env self prompt [0..<nat (max_retries self)] w"

subsection \<open>RAGSystem.get_prompt and RAGSystem.query\<close>

text \<open>Python's \<open>sep.join(xs)\<close>.\<close>

fun join :: "string \<Rightarrow> string list \<Rightarrow> string" where
  "join sep [] = []"
| "join sep [x] = x"
| "join sep (x # y # ys) = x @ sep @ join sep (y # ys)"

definition RAG_PROMPT_TEMPLATE_head :: string where
  \<open>RAG_PROMPT_TEMPLATE_head =
     ''You are an AI assistant analyzing YouTube video transcripts. Your task is to answer questions based on the provided transcript context.\<newline>'' @
     ''\<newline>'' @
     ''Context from transcript:\<newline>''\<close>

definition RAG_PROMPT_TEMPLATE_mid :: string where
  \<open>RAG_PROMPT_TEMPLATE_mid =
     ''\<newline>'' @
     ''\<newline>'' @
     ''User Question: ''\<close>

definition RAG_PROMPT_TEMPLATE_tail :: string where
  \<open>RAG_PROMPT_TEMPLATE_tail =
     ''\<newline>'' @
     ''\<newline>'' @
     ''Please provide a clear, concise answer based only on the information given in the context. If the context doesn't contain enough information to fully answer the question, acknowledge this in your response.\<newline>'' @
     ''\<newline>'' @
     ''Guidelines:\<newline>'' @
     ''1. Use only information from the provided context\<newline>'' @
     ''2. Be specific and direct in your answer\<newline>'' @
     ''3. If context is insufficient, say so\<newline>'' @
     ''4. Maintain accuracy and avoid speculation\<newline>'' @
     ''5. Use natural, conversational language''\<close>

definition get_prompt :: "string \<Rightarrow> doc list \<Rightarrow> string" where
  "get_prompt user_query relevant_docs =
     RAG_PROMPT_TEMPLATE_head @ join ''\<newline>'' (map content relevant_docs)
       @ RAG_PROMPT_TEMPLATE_mid @ user_query @ RAG_PROMPT_TEMPLATE_tail"

definition search ::
  "env \<Rightarrow> string \<Rightarrow> nat \<Rightarrow> string \<Rightarrow> string \<Rightarrow> world \<Rightarrow> (exn + doc list) \<times> world" where
  "search env q num_results method index_name w =
     (dp_search env (calls w) q num_results method index_name,
      called (Search q num_results method index_name) w)"

text \<open>The message of the \<open>ValueError\<close> and the answer given when nothing was retrieved.\<close>

definition no_index_message :: string where
  "no_index_message =
     ''No index name provided. Please select a video and ensure it has been processed.''"

definition no_docs_message :: string where
  "no_docs_message = ''I couldn't find any relevant information to answer your query.''"

text \<open>The body of the \<open>try\<close> block of \<open>query\<close>: \<open>Inl\<close> is an exception raised inside it.\<close>

definition query_body ::
  "env \<Rightarrow> rag_system \<Rightarrow> string \<Rightarrow> string \<Rightarrow> string option \<Rightarrow> world
     \<Rightarrow> (exn + string \<times> string) \<times> world" where
  "query_body env self user_query search_method index_name w =
     (case index_name of
        None \<Rightarrow> (Inl (Exn ''ValueError'' no_index_message), w)
      | Some name \<Rightarrow>
          if name = [] then (Inl (Exn ''ValueError'' no_index_message), w)
          else
            (case search env user_query 3 search_method name w of
               (Inl e, w1) \<Rightarrow> (Inl e, w1)
             | (Inr relevant_docs, w1) \<Rightarrow>
                 if relevant_docs = []
                 then (Inr (no_docs_message, ''''),
                       emit (Log WARNING ''No relevant documents found for the query.'') w1)
                 else
                   (let prompt = get_prompt user_query relevant_docs in
                    case chat env (rag_model self) prompt w1 of
                      (Inl e, w2) \<Rightarrow> (Inl e, w2)
                    | (Inr answer, w2) \<Rightarrow> (Inr (answer, prompt), w2))))"

text \<open>
  \<open>query\<close>: the handler \<open>except Exception as e\<close> turns an exception of the body into a
  returned pair when its class derives from \<open>Exception\<close>; any other exception leaves \<open>query\<close>.
\<close>

definition query ::
  "env \<Rightarrow> rag_system \<Rightarrow> string \<Rightarrow> string \<Rightarrow> string option \<Rightarrow> world
     \<Rightarrow> (exn + string \<times> string) \<times> world" where
  "query env self user_query search_method index_name w =
     (case query_body env self user_query search_method index_name w of
        (Inr r, w1) \<Rightarrow> (Inr r, w1)
      | (Inl e, w1) \<Rightarrow>
          if is_Exception e
          then (Inr (''An error occurred: '' @ exn_msg e, ''''),
                emit (Log ERROR (''An error occurred in the RAG system: '' @ exn_msg e)) w1)
          else (Inl e, w1))"

subsection \<open>RAGSystem.rewrite_cot and RAGSystem.rewrite_react\<close>








section \<open>query_rewriter.py\<close>

record query_rewriter =
  qr_model :: string

text \<open>\<open>QueryRewriter.generate\<close>: one call, and any exception becomes the text \<open>"Error: ..."\<close>.\<close>

definition qr_generate ::
  "env \<Rightarrow> query_rewriter \<Rightarrow> string \<Rightarrow> world \<Rightarrow> (exn + string) \<times> world" where
  "qr_generate env self prompt w =
     (case chat env (qr_model self) prompt w of
        (Inr text, w1) \<Rightarrow> (Inr text, w1)
      | (Inl e, w1) \<Rightarrow>
          (Inr (''Error: '' @ exn_msg e),
           emit (Log ERROR (''Error generating response: '' @ exn_msg e)) w1))"








section \<open>main.py\<close>

subsection \<open>Library operations on decoded JSON values\<close>

definition quoted :: "string \<Rightarrow> string" where
  "quoted s = [CHR 0x27] @ s @ [CHR 0x27]"

fun type_name :: "json \<Rightarrow> string" where
  "type_name JNull = ''NoneType''"
| "type_name (JBool b) = ''bool''"
| "type_name (JInt i) = ''int''"
| "type_name (JFloat r) = ''float''"
| "type_name (JStr s) = ''str''"
| "type_name (JArr xs) = ''list''"
| "type_name (JObj kvs) = ''dict''"





text \<open>\<open>d.get(k, default)\<close> on the items of a dictionary.\<close>

definition dict_get :: "(string \<times> json) list \<Rightarrow> string \<Rightarrow> json \<Rightarrow> json" where
  "dict_get kvs k d = (case map_of kvs k of None \<Rightarrow> d | Some v \<Rightarrow> v)"

definition show_int :: "int \<Rightarrow> string" where
  "show_int i = (if i < 0 then ''-'' @ show_nat (nat (- i)) else show_nat (nat i))"

text \<open>
  \<open>str(x)\<close>. A string is itself; the text of a float, a list or a dictionary is Python's
  \<open>repr\<close>, which the environment supplies.
\<close>

fun py_str :: "env \<Rightarrow> json \<Rightarrow> string" where
  "py_str env (JStr s) = s"
| "py_str env JNull = ''None''"
| "py_str env (JBool b) = (if b then ''True'' else ''False'')"
| "py_str env (JInt i) = show_int i"
| "py_str env x = py_repr env x"

text \<open>How \<open>str.format\<close> and an f-string print an argument that may be \<open>None\<close>.\<close>

fun format_opt :: "string option \<Rightarrow> string" where
  "format_opt None = ''None''"
| "format_opt (Some s) = s"

definition lower_char :: "char \<Rightarrow> char" where
  "lower_char c =
     (let n = (of_char c :: nat) in if 65 \<le> n \<and> n \<le> 90 then char_of (n + 32) else c)"

text \<open>\<open>str.lower\<close>, on ASCII text.\<close>

definition lower :: "string \<Rightarrow> string" where
  "lower s = map lower_char s"

subsection \<open>Calls to the collaborators\<close>

definition do_action :: "env \<Rightarrow> action \<Rightarrow> world \<Rightarrow> exn option \<times> world" where
  "do_action env a w = (perform env (calls w) a, called (Did a) w)"

definition get_index ::
  "env \<Rightarrow> string \<Rightarrow> string \<Rightarrow> world \<Rightarrow> (exn + string option) \<times> world" where
  "get_index env video_id embedding_model w =
     (db_get_index env (calls w) video_id embedding_model,
      called (GetIndex video_id embedding_model) w)"

definition fetch_transcript ::
  "env \<Rightarrow> string \<Rightarrow> world \<Rightarrow> (exn + transcript_data option) \<times> world" where
  "fetch_transcript env video_id w =
     (get_transcript env (calls w) video_id, called (GetTranscript video_id) w)"

definition build_index :: "env \<Rightarrow> string \<Rightarrow> world \<Rightarrow> (exn + string) \<times> world" where
  "build_index env index_name w =
     (dp_build_index env (calls w) index_name, called (BuildIndex index_name) w)"

definition add_embedding_model ::
  "env \<Rightarrow> string \<Rightarrow> string \<Rightarrow> world \<Rightarrow> (exn + int) \<times> world" where
  "add_embedding_model env name description w =
     (db_add_embedding_model env (calls w) name description,
      called (AddEmbeddingModel name description) w)"

definition get_video_by_youtube_id ::
  "env \<Rightarrow> string \<Rightarrow> world \<Rightarrow> (exn + json list option) \<times> world" where
  "get_video_by_youtube_id env video_id w =
     (db_get_video env (calls w) video_id, called (GetVideo video_id) w)"

definition load_csv :: "env \<Rightarrow> string \<Rightarrow> world \<Rightarrow> (exn + gt_row list) \<times> world" where
  "load_csv env path w = (read_csv env (calls w) path, called (ReadCsv path) w)"

subsection \<open>generate_questions\<close>




subsection \<open>generate_ground_truth\<close>

type_synonym ground_truth = "(string \<times> json) list"





subsection \<open>evaluate_rag\<close>

definition judge_prompt_head :: string where
  \<open>judge_prompt_head =
     ''You are an expert evaluator for a Youtube transcript assistant.\<newline>'' @
     ''    Your task is to analyze the relevance of the generated answer to the given question.\<newline>'' @
     ''    Based on the relevance of the generated answer, you will classify it\<newline>'' @
     ''    as "NON_RELEVANT", "PARTLY_RELEVANT", or "RELEVANT".\<newline>'' @
     ''\<newline>'' @
     ''    Here is the data for evaluation:\<newline>'' @
     ''\<newline>'' @
     ''    Question: ''\<close>

definition judge_prompt_mid :: string where
  \<open>judge_prompt_mid =
     ''\<newline>'' @
     ''    Generated Answer: ''\<close>

definition judge_prompt_tail :: string where
  \<open>judge_prompt_tail =
     ''\<newline>'' @
     ''\<newline>'' @
     ''    Please analyze the content and context of the generated answer in relation to the question\<newline>'' @
     ''    and provide your evaluation in parsable JSON without using code blocks:\<newline>'' @
     ''\<newline>'' @
     ''    {\<newline>'' @
     ''      "Relevance": "NON_RELEVANT" | "PARTLY_RELEVANT" | "RELEVANT",\<newline>'' @
     ''      "Explanation": "[Provide a brief explanation for your evaluation]"\<newline>'' @
     ''    }''\<close>

text \<open>The f-string \<open>prompt_template.format(question=question, answer_llm=answer_llm)\<close>.\<close>

definition judge_prompt :: "string \<Rightarrow> string \<Rightarrow> string" where
  "judge_prompt question answer_llm =
     judge_prompt_head @ question @ judge_prompt_mid @ answer_llm @ judge_prompt_tail"

text \<open>The tuple appended to \<open>evaluations\<close>, from the items of the judge's dictionary.\<close>

definition judge_record ::
  "env \<Rightarrow> string \<Rightarrow> string \<Rightarrow> string \<Rightarrow> (string \<times> json) list \<Rightarrow> evaluation" where
  "judge_record env video_id question answer_llm evaluation_json =
     \<lparr>ev_video_id = video_id,
      ev_question = question,
      ev_answer = answer_llm,
      ev_relevance = py_str env (dict_get evaluation_json ''Relevance'' (JStr ''UNKNOWN'')),
      ev_explanation =
        py_str env (dict_get evaluation_json ''Explanation'' (JStr ''No explanation provided''))\<rparr>"

definition failed_to_evaluate :: "string \<Rightarrow> exn \<Rightarrow> world \<Rightarrow> world" where
  "failed_to_evaluate question e w =
     emit (St StWarning (''Failed to evaluate question: '' @ question))
       (emit (Log WARNING
          (''Failed to evaluate question: '' @ question @ ''. Error: '' @ exn_msg e)) w)"

text \<open>
  The second \<open>try\<close> block of the loop body: the records it appends (one or none). A decoded
  value that is no dictionary has no \<open>get\<close>, which is an \<open>AttributeError\<close>.
\<close>

definition judge ::
  "env \<Rightarrow> string \<Rightarrow> string \<Rightarrow> string \<Rightarrow> world \<Rightarrow> evaluation list \<times> world" where
  "judge env video_id question answer_llm w =
     (let prompt = judge_prompt question answer_llm in
      case chat env ''phi3.5'' prompt w of
        (Inl e, w1) \<Rightarrow> ([], failed_to_evaluate question e w1)
      | (Inr text, w1) \<Rightarrow>
          (case json_loads env text of
             Inl e \<Rightarrow> ([], failed_to_evaluate question e w1)
           | Inr j \<Rightarrow>
               (case j of
                  JObj evaluation_json \<Rightarrow>
                    ([judge_record env video_id question answer_llm evaluation_json], w1)
                | _ \<Rightarrow>
                    ([], failed_to_evaluate question
                           (Exn ''AttributeError''
                              (quoted (type_name j) @ '' object has no attribute ''
                                 @ quoted ''get'')) w1))))"

text \<open>
  The loop \<open>for i, (_, row) in enumerate(sample.iterrows())\<close>, with the list \<open>evaluations\<close>
  built so far. The cells of a row are taken to be strings, so \<open>str\<close> leaves them as they are.
\<close>

fun evaluate_loop ::
  "env \<Rightarrow> rag_system \<Rightarrow> nat \<Rightarrow> (nat \<times> gt_row) list \<Rightarrow> evaluation list \<Rightarrow> world
     \<Rightarrow> (exn + evaluation list) \<times> world" where
  "evaluate_loop env rag n [] evaluations w = (Inr evaluations, w)"
| "evaluate_loop env rag n ((i, (video_id, question)) # rest) evaluations w =
     (case get_index env video_id ''all-MiniLM-L6-v2'' w of
        (Inl e, w1) \<Rightarrow> (Inl e, w1)
      | (Inr index_name, w1) \<Rightarrow>
          if \<not> truthy_str index_name
          then evaluate_loop env rag n rest evaluations
                 (emit (Log WARNING (''No index found for video '' @ video_id
                          @ ''. Skipping this question.'')) w1)
          else
            (case query env rag question ''hybrid'' index_name w1 of
               (Inl e, w2) \<Rightarrow>
                 if exn_class e = ''ValueError''
                 then evaluate_loop env rag n rest evaluations
                        (emit (Log ERROR (''Error querying RAG system: '' @ exn_msg e)) w2)
                 else (Inl e, w2)
             | (Inr (answer_llm, prompt_used), w2) \<Rightarrow>
                 (case judge env video_id question answer_llm w2 of
                    (new, w3) \<Rightarrow>
                      evaluate_loop env rag n rest (evaluations @ new)
                        (emit (Progress (i + 1) n) w3))))"

text \<open>
  pandas' \<open>DataFrame.sample(n, random_state)\<close> with the defaults \<open>replace=False\<close> and
  \<open>weights=None\<close>: a negative \<open>n\<close> and an \<open>n\<close> above the number of rows are a \<open>ValueError\<close>;
  otherwise the rows at the first \<open>n\<close> positions of a permutation of \<open>range(len)\<close> are
  returned, in that order. An integer \<open>random_state\<close> seeds a generator of its own; with
  \<open>random_state=None\<close> the permutation comes from the global generator.
\<close>

definition df_sample :: "env \<Rightarrow> world \<Rightarrow> int \<Rightarrow> int option \<Rightarrow> gt_row list \<Rightarrow> exn + gt_row list" where
  "df_sample env w n random_state rows =
     (if n < 0
      then Inl (Exn ''ValueError''
                  ''A negative number of rows requested. Please provide `n` >= 0.'')
      else if int (length rows) < n
      then Inl (Exn ''ValueError''
                  (''Cannot take a larger sample than population when '' @ quoted ''replace=False''))
      else
        (let locs = take (nat n)
               (case random_state of
                  Some seed \<Rightarrow> seeded_permutation env seed (length rows)
                | None \<Rightarrow> global_permutation env (calls w) (length rows))
         in Inr (map (\<lambda>i. rows ! i) locs)))"

text \<open>\<open>ground_truth.sample(n=min(sample_size, len(ground_truth)), random_state=1)\<close>.\<close>

definition draw_sample :: "env \<Rightarrow> world \<Rightarrow> int \<Rightarrow> gt_row list \<Rightarrow> exn + gt_row list" where
  "draw_sample env w sample_size ground_truth =
     df_sample env w (min sample_size (int (length ground_truth))) (Some 1) ground_truth"

text \<open>From the sample on: the loop, the database and the result.\<close>

definition evaluate_sample ::
  "env \<Rightarrow> rag_system \<Rightarrow> gt_row list \<Rightarrow> world \<Rightarrow> (exn + evaluation list option) \<times> world" where
  "evaluate_sample env rag sample_rows w =
     (case evaluate_loop env rag (length sample_rows) (enumerate 0 sample_rows) []
             (emit (Progress 0 1) w) of
        (Inl e, w1) \<Rightarrow> (Inl e, w1)
      | (Inr evaluations, w1) \<Rightarrow>
          (case do_action env (StoreEvaluations ''data/sqlite.db'' evaluations) w1 of
             (Some e, w2) \<Rightarrow> (Inl e, w2)
           | (None, w2) \<Rightarrow>
               (Inr (Some evaluations),
                emit (St StSuccess ''Evaluation complete. Results stored in the database.'')
                  (emit (Log INFO ''Evaluation complete. Results stored in the database.'') w2))))"

definition evaluate_rag ::
  "env \<Rightarrow> rag_system \<Rightarrow> int \<Rightarrow> world \<Rightarrow> (exn + evaluation list option) \<times> world" where
  "evaluate_rag env rag sample_size w =
     (case load_csv env ''data/ground-truth-retrieval.csv'' w of
        (Inl e, w1) \<Rightarrow>
          if exn_class e = ''FileNotFoundError''
          then (Inr None,
                emit (St StError
                  ''Ground truth file not found. Please generate ground truth data first.'')
                  (emit (Log ERROR
                  ''Ground truth file not found. Please generate ground truth data first.'') w1))
          else (Inl e, w1)
      | (Inr ground_truth, w1) \<Rightarrow>
          (case draw_sample env w1 sample_size ground_truth of
             Inl e \<Rightarrow> (Inl e, w1)
           | Inr sample_rows \<Rightarrow> evaluate_sample env rag sample_rows w1))"

subsection \<open>process_single_video\<close>

text \<open>The dictionary \<open>video_data\<close>; \<open>int(...)\<close> may raise.\<close>

definition make_video_data :: "env \<Rightarrow> string \<Rightarrow> transcript_data \<Rightarrow> exn + video_data" where
  "make_video_data env video_id td =
     (let md = metadata td in
      case py_int env (dict_get md ''view_count'' (JInt 0)) of
        Inl e \<Rightarrow> Inl e
      | Inr views \<Rightarrow>
          (case py_int env (dict_get md ''like_count'' (JInt 0)) of
             Inl e \<Rightarrow> Inl e
           | Inr likes \<Rightarrow>
               (case py_int env (dict_get md ''comment_count'' (JInt 0)) of
                  Inl e \<Rightarrow> Inl e
                | Inr comments \<Rightarrow>
                    Inr \<lparr>vd_video_id = video_id,
                         vd_title = dict_get md ''title'' (JStr ''Unknown Title''),
                         vd_author = dict_get md ''author'' (JStr ''Unknown Author''),
                         vd_upload_date = dict_get md ''upload_date'' (JStr ''Unknown Date''),
                         vd_view_count = views,
                         vd_like_count = likes,
                         vd_comment_count = comments,
                         vd_video_duration =
                           dict_get md ''duration'' (JStr ''Unknown Duration'')\<rparr>)))"

text \<open>After the index has been built: the registry records.\<close>

definition register_index ::
  "env \<Rightarrow> string \<Rightarrow> string \<Rightarrow> string \<Rightarrow> world \<Rightarrow> (exn + string option) \<times> world" where
  "register_index env video_id embedding_model index_name w =
     (case add_embedding_model env embedding_model ''Description of the model'' w of
        (Inl e, w1) \<Rightarrow> (Inl e, w1)
      | (Inr embedding_model_id, w1) \<Rightarrow>
          (case get_video_by_youtube_id env video_id w1 of
             (Inl e, w2) \<Rightarrow> (Inl e, w2)
           | (Inr video_db_record, w2) \<Rightarrow>
               (case video_db_record of
                  None \<Rightarrow>
                    (Inr None,
                     emit (Log ERROR
                       (''Failed to retrieve video record from database for video '' @ video_id))
                       w2)
                | Some [] \<Rightarrow> (Inl (Exn ''IndexError'' ''tuple index out of range''), w2)
                | Some (video_db_id # columns) \<Rightarrow>
                    (case do_action env
                            (AddElasticsearchIndex video_db_id index_name embedding_model_id)
                            w2 of
                       (Some e, w3) \<Rightarrow> (Inl e, w3)
                     | (None, w3) \<Rightarrow>
                         (Inr (Some index_name),
                          emit (Log INFO
                            (''Processed and indexed transcript for video '' @ video_id))
                            w3)))))"

text \<open>The function from \<open>transcript_data = get_transcript(video_id)\<close> on: the rebuild.\<close>

definition process_new_video ::
  "env \<Rightarrow> string \<Rightarrow> string \<Rightarrow> world \<Rightarrow> (exn + string option) \<times> world" where
  "process_new_video env video_id embedding_model w =
     (case fetch_transcript env video_id w of
        (Inl e, w1) \<Rightarrow> (Inl e, w1)
      | (Inr None, w1) \<Rightarrow>
          (Inr None,
           emit (Log ERROR (''Failed to retrieve transcript for video '' @ video_id)) w1)
      | (Inr (Some td), w1) \<Rightarrow>
          (case make_video_data env video_id td of
             Inl e \<Rightarrow> (Inl e, w1)
           | Inr video_data \<Rightarrow>
               (case do_action env (AddVideo video_data) w1 of
                  (Some e, w2) \<Rightarrow>
                    (Inr None,
                     emit (Log ERROR (''Error adding video to database: '' @ exn_msg e)) w2)
                | (None, w2) \<Rightarrow>
                    (case do_action env (ProcessTranscript video_id td) w2 of
                       (Some e, w3) \<Rightarrow>
                         (Inr None,
                          emit (Log ERROR (''Error processing transcript: '' @ exn_msg e)) w3)
                     | (None, w3) \<Rightarrow>
                         (case build_index env
                                 (lower (''video_'' @ video_id @ ''_'' @ embedding_model)) w3 of
                            (Inl e, w4) \<Rightarrow>
                              (Inr None,
                               emit (Log ERROR (''Error building index: '' @ exn_msg e)) w4)
                          | (Inr index_name, w4) \<Rightarrow>
                              register_index env video_id embedding_model index_name
                                (emit (Log INFO (''Successfully built index: '' @ index_name))
                                   w4))))))"

text \<open>The body of \<open>process_single_video\<close>, as written under the decorator.\<close>

definition process_single_video_body ::
  "env \<Rightarrow> string \<Rightarrow> string \<Rightarrow> world \<Rightarrow> (exn + string option) \<times> world" where
  "process_single_video_body env video_id embedding_model w =
     (case get_index env video_id embedding_model w of
        (Inl e, w1) \<Rightarrow> (Inl e, w1)
      | (Inr existing_index, w1) \<Rightarrow>
          if truthy_str existing_index
          then (Inr existing_index,
                emit (Log INFO (''Video '' @ video_id @ '' has already been processed with ''
                        @ embedding_model @ ''. Using existing index: ''
                        @ format_opt existing_index)) w1)
          else process_new_video env video_id embedding_model w1)"

text \<open>
  The decorator \<open>@st.cache_data\<close>: Streamlit keeps the value a call returned under the
  arguments of the call. A call whose arguments are in the cache is answered with the stored
  value and the body does not run; otherwise the body runs, and the value it returns is
  stored. A call that raises stores nothing.
\<close>

type_synonym 'r st_cache = "string \<times> string \<Rightarrow> 'r option"

definition cache_data ::
  "(string \<Rightarrow> string \<Rightarrow> world \<Rightarrow> (exn + 'r) \<times> world) \<Rightarrow> 'r st_cache \<Rightarrow> string \<Rightarrow> string
     \<Rightarrow> world \<Rightarrow> ((exn + 'r) \<times> world) \<times> 'r st_cache" where
  "cache_data f cache a b w =
     (case cache (a, b) of
        Some r \<Rightarrow> ((Inr r, w), cache)
      | None \<Rightarrow>
          (case f a b w of
             (Inl e, w1) \<Rightarrow> ((Inl e, w1), cache)
           | (Inr r, w1) \<Rightarrow> ((Inr r, w1), cache((a, b) \<mapsto> r))))"

text \<open>\<open>process_single_video\<close> as the module exports it: the body under \<open>@st.cache_data\<close>.\<close>

definition process_single_video ::
  "env \<Rightarrow> string option st_cache \<Rightarrow> string \<Rightarrow> string \<Rightarrow> world
     \<Rightarrow> ((exn + string option) \<times> world) \<times> string option st_cache" where
  "process_single_video env cache video_id embedding_model w =
     cache_data (process_single_video_body env) cache video_id embedding_model w"

section \<open>Contracts of the collaborators and observations of a run\<close>

text \<open>
  What NumPy documents for \<open>RandomState(seed).permutation(k)\<close>: the numbers below \<open>k\<close>, each
  once, in an order fixed by the seed.
\<close>

definition permutation_contract :: "env \<Rightarrow> bool" where
  "permutation_contract env =
     (\<forall>seed k. distinct (seeded_permutation env seed k)
               \<and> set (seeded_permutation env seed k) = {0..<k})"

text \<open>
  Modelled from the spec: the positions of a sample of size \<open>min(n, |G|)\<close> drawn from a table
  of \<open>len\<close> rows without replacement under the fixed seed 1.
\<close>

definition seed_1_positions :: "env \<Rightarrow> int \<Rightarrow> nat \<Rightarrow> nat list" where
  "seed_1_positions env n len =
     take (nat (min n (int len))) (seeded_permutation env 1 len)"







section \<open>Concrete collaborators\<close>

text \<open>
  An environment in which every service is down: each external call raises, the ground-truth
  file is absent and JSON decoding rejects every text.
\<close>

definition env_down :: env where
  "env_down = \<lparr>
     ollama_chat = (\<lambda>n m p. Inl (Exn ''ConnectionError'' ''connection refused'')),
     dp_search = (\<lambda>n q k m i. Inl (Exn ''ConnectionError'' ''search unavailable'')),
     db_get_index = (\<lambda>n v m. Inr None),
     get_transcript = (\<lambda>n v. Inr None),
     perform = (\<lambda>n a. None),
     dp_build_index = (\<lambda>n i. Inr i),
     db_add_embedding_model = (\<lambda>n m d. Inr 1),
     db_get_video = (\<lambda>n v. Inr None),
     read_csv = (\<lambda>n f. Inl (Exn ''FileNotFoundError'' ''No such file or directory'')),
     seeded_permutation = (\<lambda>seed k. [0..<k]),
     global_permutation = (\<lambda>c k. rev [0..<k]),
     json_loads = (\<lambda>s. Inl (Exn ''JSONDecodeError'' ''Expecting value'')),
     py_repr = (\<lambda>j. ''<object>''),
     py_int = (\<lambda>j. case j of JInt i \<Rightarrow> Inr i | _ \<Rightarrow> Inl (Exn ''ValueError'' ''invalid literal''))
   \<rparr>"


definition rag3 :: rag_system where
  "rag3 = \<lparr>rag_model = ''phi3'', max_retries = 3\<rparr>"

definition w0 :: world where
  "w0 = \<lparr>calls = 0, events = []\<rparr>"

text \<open>The search engine answers, and finds nothing.\<close>

definition env_no_hits :: env where
  "env_no_hits = env_down\<lparr>dp_search := (\<lambda>n q k m i. Inr [])\<rparr>"



text \<open>The index registry knows an index for every video and model.\<close>

definition env_indexed :: env where
  "env_indexed = env_down\<lparr>db_get_index := (\<lambda>n v m. Inr (Some ''video_abc_all-minilm-l6-v2''))\<rparr>"





definition judge_text_unlabelled :: string where
  \<open>judge_text_unlabelled = ''{"Explanation": "The answer addresses the question."}''\<close>

definition judge_text_non_relevant :: string where
  \<open>judge_text_non_relevant =
     ''{"Relevance": "NON_RELEVANT", "Explanation": "The answer is an error message."}''\<close>

definition decode_judge :: "string \<Rightarrow> exn + json" where
  "decode_judge s =
     (if s = judge_text_unlabelled
      then Inr (JObj [(''Explanation'', JStr ''The answer addresses the question.'')])
      else if s = judge_text_non_relevant
      then Inr (JObj [(''Relevance'', JStr ''NON_RELEVANT''),
                      (''Explanation'', JStr ''The answer is an error message.'')])
      else Inl (Exn ''JSONDecodeError'' ''Expecting value''))"

text \<open>
  One ground-truth row whose video has an index. The search engine is down; the judge model
  \<open>phi3.5\<close> answers with a well-formed verdict.
\<close>

definition env_search_down :: env where
  "env_search_down = env_down\<lparr>
     ollama_chat := (\<lambda>n m p. if m = ''phi3.5'' then Inr judge_text_non_relevant
                              else Inl (Exn ''ConnectionError'' ''connection refused'')),
     db_get_index := (\<lambda>n v m. Inr (Some ''video_abc_all-minilm-l6-v2'')),
     read_csv := (\<lambda>n f. Inr [(''abc'', ''What do bees do?'')]),
     json_loads := decode_judge\<rparr>"


text \<open>The search is interrupted from the keyboard while the engine works.\<close>

definition env_interrupted :: env where
  "env_interrupted = env_down\<lparr>dp_search := (\<lambda>n q k m i. Inl (Exn ''KeyboardInterrupt'' ''''))\<rparr>"

text \<open>
  The registry has no index for the video at the first call of the run and has one from the
  second call on; the video has no transcript.
\<close>

definition env_late_index :: env where
  "env_late_index = env_down\<lparr>db_get_index :=
     (\<lambda>n v m. if n = 0 then Inr None else Inr (Some ''video_abc_all-minilm-l6-v2''))\<rparr>"

definition no_cache :: "string option st_cache" where
  "no_cache = (\<lambda>k. None)"

text \<open>A ground-truth table of three rows; the generator seeded with 1 starts at the last row.\<close>

definition three_rows :: "gt_row list" where
  "three_rows = [(''abc'', ''What do bees do?''), (''def'', ''Why is the sky blue?''),
                 (''ghi'', ''How do magnets work?'')]"

definition env_three_rows :: env where
  "env_three_rows = env_down\<lparr>
     read_csv := (\<lambda>n f. Inr three_rows),
     seeded_permutation := (\<lambda>seed k. rotate 2 [0..<k])\<rparr>"

section \<open>Properties of the retry loop\<close>






section \<open>Evaluating the concrete collaborators\<close>

lemma upt3: "[0..<3] = [0, 1, 2::nat]"
  by (simp add: upt_rec)



subsection \<open>Claim C1: the retry policy of \<open>RAGSystem.generate\<close>\<close>




section \<open>Properties of \<open>RAGSystem.query\<close>\<close>

lemma is_ValueError: "is_Exception (Exn ''ValueError'' msg)"
  by (simp add: is_Exception_def outside_Exception_def)

lemma is_ConnectionError: "is_Exception (Exn ''ConnectionError'' msg)"
  by (simp add: is_Exception_def outside_Exception_def)


lemma query_no_index:
  "\<not> truthy_str idx \<Longrightarrow>
   fst (query env self q m idx w) = Inr (''An error occurred: '' @ no_index_message, '''')"
  by (cases idx) (simp_all add: query_def query_body_def is_ValueError)

lemma query_search_error:
  "name \<noteq> [] \<Longrightarrow> dp_search env (calls w) q 3 m name = Inl e \<Longrightarrow> is_Exception e \<Longrightarrow>
   fst (query env self q m (Some name) w) = Inr (''An error occurred: '' @ exn_msg e, '''')"
  by (simp add: query_def query_body_def search_def)

lemma query_no_docs:
  "name \<noteq> [] \<Longrightarrow> dp_search env (calls w) q 3 m name = Inr [] \<Longrightarrow>
   fst (query env self q m (Some name) w) = Inr (no_docs_message, '''')"
  by (simp add: query_def query_body_def search_def)

lemma query_chat_error:
  "name \<noteq> [] \<Longrightarrow> dp_search env (calls w) q 3 m name = Inr docs \<Longrightarrow> docs \<noteq> [] \<Longrightarrow>
   ollama_chat env (Suc (calls w)) (rag_model self) (get_prompt q docs) = Inl e \<Longrightarrow>
   is_Exception e \<Longrightarrow>
   fst (query env self q m (Some name) w) = Inr (''An error occurred: '' @ exn_msg e, '''')"
  by (simp add: query_def query_body_def search_def chat_def called_def Let_def)

lemma query_body_raises:
  assumes "fst (query_body env self q m idx w) = Inl e"
  shows "is_Exception e \<and> \<not> truthy_str idx
         \<or> (\<exists>name. idx = Some name \<and> name \<noteq> []
              \<and> (dp_search env (calls w) q 3 m name = Inl e
                 \<or> (\<exists>docs. dp_search env (calls w) q 3 m name = Inr docs \<and> docs \<noteq> []
                       \<and> ollama_chat env (Suc (calls w)) (rag_model self) (get_prompt q docs)
                           = Inl e)))"
proof (cases idx)
  case None
  with assms show ?thesis by (auto simp: query_body_def is_ValueError)
next
  case (Some name)
  show ?thesis
  proof (cases "name = []")
    case True
    with Some assms show ?thesis by (auto simp: query_body_def is_ValueError)
  next
    case False
    show ?thesis
    proof (cases "dp_search env (calls w) q 3 m name")
      case (Inl e')
      with Some False assms show ?thesis by (simp add: query_body_def search_def)
    next
      case (Inr docs)
      show ?thesis
      proof (cases "docs = []")
        case True
        with Some False Inr assms show ?thesis by (simp add: query_body_def search_def)
      next
        case nonempty: False
        show ?thesis
        proof (cases "ollama_chat env (Suc (calls w)) (rag_model self) (get_prompt q docs)")
          case (Inl e')
          with Some False Inr nonempty assms show ?thesis
            by (simp add: query_body_def search_def chat_def called_def Let_def)
        next
          case r: (Inr answer)
          with Some False Inr nonempty assms show ?thesis
            by (simp add: query_body_def search_def chat_def called_def Let_def)
        qed
      qed
    qed
  qed
qed

lemma query_raises:
  assumes "fst (query env self q m idx w) = Inl e"
  shows "\<not> is_Exception e \<and> fst (query_body env self q m idx w) = Inl e"
proof (cases "query_body env self q m idx w")
  case (Pair r w1)
  with assms show ?thesis by (cases r) (auto simp: query_def split: if_splits)
qed


lemma messages_differ: "no_docs_message \<noteq> ''An error occurred: '' @ no_index_message"
  by (simp add: no_docs_message_def)

lemma env_down_search:
  "dp_search env_down n q k m i = Inl (Exn ''ConnectionError'' ''search unavailable'')"
  by (simp add: env_down_def)

lemma env_no_hits_search: "dp_search env_no_hits n q k m i = Inr []"
  by (simp add: env_no_hits_def)

lemma env_interrupted_search:
  "dp_search env_interrupted n q k m i = Inl (Exn ''KeyboardInterrupt'' '''')"
  by (simp add: env_interrupted_def env_down_def)

lemma KeyboardInterrupt_passes: "\<not> is_Exception (Exn ''KeyboardInterrupt'' msg)"
  by (simp add: is_Exception_def outside_Exception_def)

subsection \<open>Claim C9: which failures \<open>query\<close> returns and which it lets pass\<close>

text \<open>
  C9, as the code has it. An exception leaves \<open>RAGSystem.query\<close> only when its class is
  outside \<open>Exception\<close>, and then it was raised by the search or by the model call. Every
  other failure is returned: a missing index name (\<open>None\<close> or the empty string), an exception
  of the search and an exception of the model call whose class derives from \<open>Exception\<close> each
  come back as the text \<open>"An error occurred: "\<close> followed by the exception's message, paired
  with an empty prompt; a search that finds no document comes back as the fixed message
  \<open>no_docs_message\<close>, paired with an empty prompt.
\<close>

theorem query_returns_every_Exception:
  "(\<forall>e. fst (query env self q m idx w) = Inl e \<longrightarrow>
        \<not> is_Exception e
        \<and> (\<exists>name. idx = Some name \<and> name \<noteq> []
             \<and> (dp_search env (calls w) q 3 m name = Inl e
                \<or> (\<exists>docs. dp_search env (calls w) q 3 m name = Inr docs \<and> docs \<noteq> []
                      \<and> ollama_chat env (Suc (calls w)) (rag_model self) (get_prompt q docs)
                          = Inl e))))
   \<and> (\<not> truthy_str idx \<longrightarrow>
         fst (query env self q m idx w) = Inr (''An error occurred: '' @ no_index_message, ''''))
   \<and> (\<forall>name e. idx = Some name \<and> name \<noteq> [] \<and> dp_search env (calls w) q 3 m name = Inl e
           \<and> is_Exception e
         \<longrightarrow> fst (query env self q m idx w) = Inr (''An error occurred: '' @ exn_msg e, ''''))
   \<and> (\<forall>name. idx = Some name \<and> name \<noteq> [] \<and> dp_search env (calls w) q 3 m name = Inr []
         \<longrightarrow> fst (query env self q m idx w) = Inr (no_docs_message, ''''))
   \<and> (\<forall>name docs e. idx = Some name \<and> name \<noteq> [] \<and> dp_search env (calls w) q 3 m name = Inr docs
           \<and> docs \<noteq> []
           \<and> ollama_chat env (Suc (calls w)) (rag_model self) (get_prompt q docs) = Inl e
           \<and> is_Exception e
         \<longrightarrow> fst (query env self q m idx w) = Inr (''An error occurred: '' @ exn_msg e, ''''))"
proof (intro conjI allI impI)
  fix e
  assume r: "fst (query env self q m idx w) = Inl e"
  note a = query_raises [OF r]
  from a show "\<not> is_Exception e" by (rule conjunct1)
  from query_body_raises [OF a [THEN conjunct2]] a [THEN conjunct1]
  show "\<exists>name. idx = Some name \<and> name \<noteq> []
             \<and> (dp_search env (calls w) q 3 m name = Inl e
                \<or> (\<exists>docs. dp_search env (calls w) q 3 m name = Inr docs \<and> docs \<noteq> []
                      \<and> ollama_chat env (Suc (calls w)) (rag_model self) (get_prompt q docs)
                          = Inl e))"
    by blast
next
  assume "\<not> truthy_str idx"
  then show "fst (query env self q m idx w) = Inr (''An error occurred: '' @ no_index_message, '''')"
    by (rule query_no_index)
next
  fix name e
  assume "idx = Some name \<and> name \<noteq> [] \<and> dp_search env (calls w) q 3 m name = Inl e
           \<and> is_Exception e"
  then show "fst (query env self q m idx w) = Inr (''An error occurred: '' @ exn_msg e, '''')"
    using query_search_error [of name env w q m e self] by simp
next
  fix name
  assume "idx = Some name \<and> name \<noteq> [] \<and> dp_search env (calls w) q 3 m name = Inr []"
  then show "fst (query env self q m idx w) = Inr (no_docs_message, '''')"
    using query_no_docs [of name env w q m self] by simp
next
  fix name docs e
  assume "idx = Some name \<and> name \<noteq> [] \<and> dp_search env (calls w) q 3 m name = Inr docs
           \<and> docs \<noteq> []
           \<and> ollama_chat env (Suc (calls w)) (rag_model self) (get_prompt q docs) = Inl e
           \<and> is_Exception e"
  then show "fst (query env self q m idx w) = Inr (''An error occurred: '' @ exn_msg e, '''')"
    using query_chat_error [of name env w q m docs self e] by simp
qed

text \<open>
  C9, witness: no index name, a search engine that is down with a \<open>ConnectionError\<close>, a search
  without hits, and an interrupted search, which is the one exception that leaves \<open>query\<close>
  and is outside \<open>Exception\<close>.
\<close>

theorem query_returns_every_Exception_witness:
  "fst (query env_down rag3 ''how do bees dance'' ''hybrid'' None w0) =
      Inr (''An error occurred: '' @ no_index_message, '''')
   \<and> fst (query env_down rag3 ''how do bees dance'' ''hybrid'' (Some ''video_x'') w0) =
      Inr (''An error occurred: search unavailable'', '''')
   \<and> fst (query env_no_hits rag3 ''how do bees dance'' ''hybrid'' (Some ''video_x'') w0) =
      Inr (no_docs_message, '''')
   \<and> fst (query env_interrupted rag3 ''how do bees dance'' ''hybrid'' (Some ''video_x'') w0) =
      Inl (Exn ''KeyboardInterrupt'' '''')
   \<and> \<not> is_Exception (Exn ''KeyboardInterrupt'' '''')"
proof -
  have a: "\<not> truthy_str None" by simp
  have b: "Some ''video_x'' = Some ''video_x'' \<and> ''video_x'' \<noteq> []
     \<and> dp_search env_down (calls w0) ''how do bees dance'' 3 ''hybrid'' ''video_x''
         = Inl (Exn ''ConnectionError'' ''search unavailable'')
     \<and> is_Exception (Exn ''ConnectionError'' ''search unavailable'')"
    by (simp add: env_down_search is_ConnectionError)
  have c: "Some ''video_x'' = Some ''video_x'' \<and> ''video_x'' \<noteq> []
     \<and> dp_search env_no_hits (calls w0) ''how do bees dance'' 3 ''hybrid'' ''video_x'' = Inr []"
    by (simp add: env_no_hits_search)
  have d: "fst (query env_interrupted rag3 ''how do bees dance'' ''hybrid'' (Some ''video_x'') w0) =
      Inl (Exn ''KeyboardInterrupt'' '''')"
    by (simp add: query_def query_body_def search_def env_interrupted_search
          KeyboardInterrupt_passes)
  note 1 = query_returns_every_Exception [of env_down rag3 "''how do bees dance''" "''hybrid''"
      None w0, THEN conjunct2, THEN conjunct1, rule_format, OF a]
  note 2 = query_returns_every_Exception [of env_down rag3 "''how do bees dance''" "''hybrid''"
      "Some ''video_x''" w0, THEN conjunct2, THEN conjunct2, THEN conjunct1, rule_format, OF b]
  note 3 = query_returns_every_Exception [of env_no_hits rag3 "''how do bees dance''"
      "''hybrid''" "Some ''video_x''" w0, THEN conjunct2, THEN conjunct2, THEN conjunct2,
      THEN conjunct1, rule_format, OF c]
  note 4 = query_returns_every_Exception [of env_interrupted rag3 "''how do bees dance''"
      "''hybrid''" "Some ''video_x''" w0, THEN conjunct1, rule_format, OF d, THEN conjunct1]
  from 1 2 3 d 4 show ?thesis by simp
qed

text \<open>
  C9, counterexample to the claim as stated: the search is interrupted from the keyboard.
  \<open>KeyboardInterrupt\<close> does not derive from \<open>Exception\<close>, the handler of \<open>query\<close> does not catch
  it, and it reaches the caller of \<open>query\<close>.
\<close>

theorem query_passes_KeyboardInterrupt:
  "fst (query env_interrupted rag3 ''how do bees dance'' ''hybrid'' (Some ''video_x'') w0) =
     Inl (Exn ''KeyboardInterrupt'' '''')
   \<and> isl (fst (query env_interrupted rag3 ''how do bees dance'' ''hybrid'' (Some ''video_x'') w0))"
  by (simp add: query_def query_body_def search_def env_interrupted_search
        KeyboardInterrupt_passes)

subsection \<open>Claim C3: a missing index and an empty result\<close>

text \<open>
  C3, as the code has it. When no index name is given, \<open>query\<close> does not fail: it returns the
  text \<open>"An error occurred: No index name provided. ..."\<close> with an empty prompt. A search that
  succeeds and finds nothing returns \<open>no_docs_message\<close> with an empty prompt, which is a
  different result, so the caller can tell the two apart by the returned text.
\<close>

theorem query_missing_index_is_returned:
  "\<not> truthy_str idx \<Longrightarrow>
   fst (query env self q m idx w) = Inr (''An error occurred: '' @ no_index_message, '''')
   \<and> (\<forall>name. name \<noteq> [] \<and> dp_search env (calls w) q 3 m name = Inr []
        \<longrightarrow> fst (query env self q m (Some name) w) = Inr (no_docs_message, '''')
          \<and> fst (query env self q m (Some name) w) \<noteq> fst (query env self q m idx w))"
proof (intro conjI allI impI)
  assume n: "\<not> truthy_str idx"
  then show 1: "fst (query env self q m idx w) = Inr (''An error occurred: '' @ no_index_message, '''')"
    by (rule query_no_index)
  fix name
  assume h: "name \<noteq> [] \<and> dp_search env (calls w) q 3 m name = Inr []"
  then show 2: "fst (query env self q m (Some name) w) = Inr (no_docs_message, '''')"
    using query_no_docs [of name env w q m self] by simp
  show "fst (query env self q m (Some name) w) \<noteq> fst (query env self q m idx w)"
    unfolding 1 2 using messages_differ by simp
qed

text \<open>C3, witness: the two outcomes on a search engine that finds nothing.\<close>

theorem query_missing_index_is_returned_witness:
  "\<not> truthy_str None
   \<and> fst (query env_no_hits rag3 ''how do bees dance'' ''hybrid'' None w0) =
       Inr (''An error occurred: '' @ no_index_message, '''')
   \<and> fst (query env_no_hits rag3 ''how do bees dance'' ''hybrid'' (Some ''video_x'') w0) =
       Inr (no_docs_message, '''')
   \<and> fst (query env_no_hits rag3 ''how do bees dance'' ''hybrid'' (Some ''video_x'') w0)
       \<noteq> fst (query env_no_hits rag3 ''how do bees dance'' ''hybrid'' None w0)"
proof -
  have a: "\<not> truthy_str None" by simp
  have c: "''video_x'' \<noteq> []
     \<and> dp_search env_no_hits (calls w0) ''how do bees dance'' 3 ''hybrid'' ''video_x'' = Inr []"
    by (simp add: env_no_hits_search)
  note T = query_missing_index_is_returned [OF a, of env_no_hits rag3 "''how do bees dance''" "''hybrid''" w0]
  note 1 = T [THEN conjunct1]
  note 2 = T [THEN conjunct2, rule_format, OF c]
  from a 1 2 show ?thesis by (intro conjI) (erule conjunct1 conjunct2 | assumption)+
qed

text \<open>
  C3, counterexample to the claim as stated: with no index name the call returns a pair; no
  \<open>IndexNotFoundError\<close>, and no exception at all, reaches the caller.
\<close>

theorem query_missing_index_does_not_raise:
  "fst (query env_down rag3 ''how do bees dance'' ''hybrid'' None w0) =
     Inr (''An error occurred: '' @ no_index_message, '''')
   \<and> \<not> isl (fst (query env_down rag3 ''how do bees dance'' ''hybrid'' None w0))"
  by (simp add: query_def query_body_def is_ValueError)

section \<open>Properties of query rewriting\<close>





lemma qr_generate_returns: "\<exists>t. fst (qr_generate env qr p w) = Inr t"
  by (cases "ollama_chat env (calls w) (qr_model qr) p") (simp_all add: qr_generate_def chat_def)



subsection \<open>Claim C4: the fallback of \<open>rewrite_cot\<close> and \<open>rewrite_react\<close>\<close>




subsection \<open>Claim C10: \<open>QueryRewriter\<close> tells failure from success by the text alone\<close>



section \<open>Properties of indexing and sampling\<close>

lemma process_single_video_body_reuses:
  "db_get_index env (calls w) video_id embedding_model = Inr (Some h) \<Longrightarrow> h \<noteq> [] \<Longrightarrow>
   process_single_video_body env video_id embedding_model w
     = (Inr (Some h),
        emit (Log INFO (''Video '' @ video_id @ '' has already been processed with ''
                @ embedding_model @ ''. Using existing index: '' @ h))
          (called (GetIndex video_id embedding_model) w))"
  by (simp add: process_single_video_body_def get_index_def)

lemma cache_data_hit:
  "cache (a, b) = Some r \<Longrightarrow> cache_data f cache a b w = ((Inr r, w), cache)"
  by (simp add: cache_data_def)

lemma cache_data_miss:
  "cache (a, b) = None \<Longrightarrow> f a b w = (Inr r, w1) \<Longrightarrow>
   cache_data f cache a b w = ((Inr r, w1), cache((a, b) \<mapsto> r))"
  by (simp add: cache_data_def)

lemma cache_data_returned_is_cached:
  "cache_data f cache a b w = ((Inr r, w1), cache1) \<Longrightarrow> cache1 (a, b) = Some r"
  by (auto simp: cache_data_def split: option.splits sum.splits prod.splits)

lemma env_indexed_get_index:
  "db_get_index env_indexed n v m = Inr (Some ''video_abc_all-minilm-l6-v2'')"
  by (simp add: env_indexed_def)

lemma env_late_index_simps:
  "db_get_index env_late_index 0 v m = Inr None"
  "db_get_index env_late_index (Suc n) v m = Inr (Some ''video_abc_all-minilm-l6-v2'')"
  "get_transcript env_late_index n v = Inr None"
  by (simp_all add: env_late_index_def env_down_def)

lemma env_late_index_first_call:
  "process_single_video env_late_index no_cache ''abc'' ''all-MiniLM-L6-v2'' w0
     = ((Inr None,
         emit (Log ERROR (''Failed to retrieve transcript for video '' @ ''abc''))
           (called (GetTranscript ''abc'') (called (GetIndex ''abc'' ''all-MiniLM-L6-v2'') w0))),
        no_cache((''abc'', ''all-MiniLM-L6-v2'') \<mapsto> None))"
  by (simp add: process_single_video_def cache_data_def no_cache_def
      process_single_video_body_def get_index_def process_new_video_def fetch_transcript_def
      env_late_index_simps w0_def called_def)

subsection \<open>Claim C2: an existing index is reused, and so is a cached result\<close>

text \<open>
  C2, as the code has it. \<open>process_single_video\<close> runs under \<open>@st.cache_data\<close>. For every video
  and embedding model: a call that the cache does not answer and that finds an index
  registered for the pair (the lookup returns a handle, a non-empty name) returns that
  handle unchanged, does nothing but the lookup and one log line (no transcript is fetched,
  nothing is stored, no index is built, no registry record is added), and leaves the handle
  in the cache. A call whose arguments are in the cache returns the cached result and does
  nothing at all, not even the lookup. So of two calls with the same arguments the second
  returns what the first returned and performs no rebuild.
\<close>

theorem process_single_video_reuses_index_or_cache:
  "(cache (video_id, embedding_model) = None
      \<and> db_get_index env (calls w) video_id embedding_model = Inr (Some h) \<and> h \<noteq> [] \<longrightarrow>
      fst (fst (process_single_video env cache video_id embedding_model w)) = Inr (Some h)
      \<and> events (snd (fst (process_single_video env cache video_id embedding_model w)))
          = events w @ [GetIndex video_id embedding_model,
                        Log INFO (''Video '' @ video_id @ '' has already been processed with ''
                           @ embedding_model @ ''. Using existing index: '' @ h)]
      \<and> calls (snd (fst (process_single_video env cache video_id embedding_model w)))
          = Suc (calls w)
      \<and> snd (process_single_video env cache video_id embedding_model w)
          = cache((video_id, embedding_model) \<mapsto> Some h))
   \<and> (\<forall>r. cache (video_id, embedding_model) = Some r \<longrightarrow>
          process_single_video env cache video_id embedding_model w = ((Inr r, w), cache))
   \<and> (\<forall>r w1 cache1 w2.
          process_single_video env cache video_id embedding_model w = ((Inr r, w1), cache1) \<longrightarrow>
          process_single_video env cache1 video_id embedding_model w2 = ((Inr r, w2), cache1))"
proof (intro conjI allI impI)
  assume a: "cache (video_id, embedding_model) = None
      \<and> db_get_index env (calls w) video_id embedding_model = Inr (Some h) \<and> h \<noteq> []"
  then have b: "process_single_video_body env video_id embedding_model w
     = (Inr (Some h),
        emit (Log INFO (''Video '' @ video_id @ '' has already been processed with ''
                @ embedding_model @ ''. Using existing index: '' @ h))
          (called (GetIndex video_id embedding_model) w))"
    by (simp add: process_single_video_body_reuses)
  from a have c: "cache (video_id, embedding_model) = None" by simp
  note d = cache_data_miss [of cache video_id embedding_model "process_single_video_body env",
      OF c b]
  show "fst (fst (process_single_video env cache video_id embedding_model w)) = Inr (Some h)"
    by (simp add: process_single_video_def d)
  show "events (snd (fst (process_single_video env cache video_id embedding_model w)))
          = events w @ [GetIndex video_id embedding_model,
                        Log INFO (''Video '' @ video_id @ '' has already been processed with ''
                           @ embedding_model @ ''. Using existing index: '' @ h)]"
    by (simp add: process_single_video_def d emit_def called_def)
  show "calls (snd (fst (process_single_video env cache video_id embedding_model w)))
          = Suc (calls w)"
    by (simp add: process_single_video_def d emit_def called_def)
  show "snd (process_single_video env cache video_id embedding_model w)
          = cache((video_id, embedding_model) \<mapsto> Some h)"
    by (simp add: process_single_video_def d)
next
  fix r
  assume "cache (video_id, embedding_model) = Some r"
  then show "process_single_video env cache video_id embedding_model w = ((Inr r, w), cache)"
    by (simp add: process_single_video_def cache_data_hit)
next
  fix r w1 cache1 w2
  assume "process_single_video env cache video_id embedding_model w = ((Inr r, w1), cache1)"
  then have "cache1 (video_id, embedding_model) = Some r"
    unfolding process_single_video_def by (rule cache_data_returned_is_cached)
  then show "process_single_video env cache1 video_id embedding_model w2 = ((Inr r, w2), cache1)"
    by (simp add: process_single_video_def cache_data_hit)
qed

text \<open>
  C2, witness: a registry that holds \<open>video_abc_all-minilm-l6-v2\<close> and an empty cache. The
  first call returns the handle after the lookup and one log line; a second call, made in
  the world and with the cache the first one left, returns the handle and changes nothing.
\<close>

theorem process_single_video_reuses_index_or_cache_witness:
  "fst (fst (process_single_video env_indexed no_cache ''abc'' ''all-MiniLM-L6-v2'' w0))
      = Inr (Some ''video_abc_all-minilm-l6-v2'')
   \<and> events (snd (fst (process_single_video env_indexed no_cache ''abc'' ''all-MiniLM-L6-v2'' w0)))
      = [GetIndex ''abc'' ''all-MiniLM-L6-v2'',
         Log INFO (''Video '' @ ''abc'' @ '' has already been processed with ''
                        @ ''all-MiniLM-L6-v2'' @ ''. Using existing index: ''
                        @ ''video_abc_all-minilm-l6-v2'')]
   \<and> process_single_video env_indexed
        (snd (process_single_video env_indexed no_cache ''abc'' ''all-MiniLM-L6-v2'' w0))
        ''abc'' ''all-MiniLM-L6-v2''
        (snd (fst (process_single_video env_indexed no_cache ''abc'' ''all-MiniLM-L6-v2'' w0)))
      = ((Inr (Some ''video_abc_all-minilm-l6-v2''),
          snd (fst (process_single_video env_indexed no_cache ''abc'' ''all-MiniLM-L6-v2'' w0))),
         snd (process_single_video env_indexed no_cache ''abc'' ''all-MiniLM-L6-v2'' w0))"
proof -
  have a: "no_cache (''abc'', ''all-MiniLM-L6-v2'') = None
      \<and> db_get_index env_indexed (calls w0) ''abc'' ''all-MiniLM-L6-v2''
          = Inr (Some ''video_abc_all-minilm-l6-v2'')
      \<and> ''video_abc_all-minilm-l6-v2'' \<noteq> []"
    by (simp add: env_indexed_get_index no_cache_def)
  have e: "events w0 = []" by (simp add: w0_def)
  note T = process_single_video_reuses_index_or_cache
    [of no_cache "''abc''" "''all-MiniLM-L6-v2''" env_indexed w0 "''video_abc_all-minilm-l6-v2''"]
  note 1 = T [THEN conjunct1, rule_format, OF a]
  have p: "process_single_video env_indexed no_cache ''abc'' ''all-MiniLM-L6-v2'' w0
     = ((Inr (Some ''video_abc_all-minilm-l6-v2''),
         snd (fst (process_single_video env_indexed no_cache ''abc'' ''all-MiniLM-L6-v2'' w0))),
        snd (process_single_video env_indexed no_cache ''abc'' ''all-MiniLM-L6-v2'' w0))"
    using 1 [THEN conjunct1] by (simp add: prod_eq_iff)
  note 3 = T [THEN conjunct2, THEN conjunct2, rule_format, OF p]
  from 1 [THEN conjunct1] 1 [THEN conjunct2, THEN conjunct1] 3 show ?thesis
    unfolding e by simp
qed

text \<open>
  C2, counterexample to the claim as stated. The first call for the video finds no index
  and no transcript, returns \<open>None\<close>, and Streamlit caches that result. By the time of the
  second call the registry holds an index for the pair; the second call is answered from
  the cache and returns \<open>None\<close>, not the registered handle.
\<close>

theorem cached_None_hides_registered_index:
  "fst (fst (process_single_video env_late_index no_cache ''abc'' ''all-MiniLM-L6-v2'' w0))
     = Inr None
   \<and> db_get_index env_late_index
        (calls (snd (fst (process_single_video env_late_index no_cache
                            ''abc'' ''all-MiniLM-L6-v2'' w0))))
        ''abc'' ''all-MiniLM-L6-v2''
     = Inr (Some ''video_abc_all-minilm-l6-v2'')
   \<and> fst (fst (process_single_video env_late_index
                 (snd (process_single_video env_late_index no_cache
                         ''abc'' ''all-MiniLM-L6-v2'' w0))
                 ''abc'' ''all-MiniLM-L6-v2''
                 (snd (fst (process_single_video env_late_index no_cache
                              ''abc'' ''all-MiniLM-L6-v2'' w0)))))
     = Inr None"
  unfolding env_late_index_first_call
  by (simp add: process_single_video_def cache_data_def called_def emit_def w0_def
      env_late_index_simps)

lemma evaluate_rag_on_sample:
  "read_csv env (calls (w::world)) ''data/ground-truth-retrieval.csv'' = Inr G \<Longrightarrow>
   draw_sample env (called (ReadCsv ''data/ground-truth-retrieval.csv'') w) n G = Inr s \<Longrightarrow>
   evaluate_rag env rag n w
     = evaluate_sample env rag s (called (ReadCsv ''data/ground-truth-retrieval.csv'') w)"
  by (simp add: evaluate_rag_def load_csv_def)

lemma evaluate_rag_sample_error:
  "read_csv env (calls (w::world)) ''data/ground-truth-retrieval.csv'' = Inr G \<Longrightarrow>
   draw_sample env (called (ReadCsv ''data/ground-truth-retrieval.csv'') w) n G = Inl e \<Longrightarrow>
   fst (evaluate_rag env rag n w) = Inl e"
  by (simp add: evaluate_rag_def load_csv_def)

lemma seed_1_positions_props:
  assumes "permutation_contract env"
  shows "distinct (seed_1_positions env n len)"
    and "\<forall>i\<in>set (seed_1_positions env n len). i < len"
    and "0 \<le> n \<Longrightarrow> length (seed_1_positions env n len) = nat (min n (int len))"
proof -
  from assms have d: "distinct (seeded_permutation env 1 len)"
    and s: "set (seeded_permutation env 1 len) = {0..<len}"
    by (simp_all add: permutation_contract_def)
  from d show "distinct (seed_1_positions env n len)"
    by (simp add: seed_1_positions_def)
  show "\<forall>i\<in>set (seed_1_positions env n len). i < len"
  proof
    fix i assume "i \<in> set (seed_1_positions env n len)"
    then have "i \<in> set (seeded_permutation env 1 len)"
      unfolding seed_1_positions_def by (rule in_set_takeD)
    with s show "i < len" by simp
  qed
  from d s have "length (seeded_permutation env 1 len) = len"
    using distinct_card [of "seeded_permutation env 1 len"] by simp
  moreover assume "0 \<le> n"
  ultimately show "length (seed_1_positions env n len) = nat (min n (int len))"
    by (auto simp: seed_1_positions_def min_def)
qed

lemma draw_sample_seeded:
  "0 \<le> n \<Longrightarrow>
   draw_sample env w n G = Inr (map (\<lambda>i. G ! i) (seed_1_positions env n (length G)))"
  by (simp add: draw_sample_def df_sample_def seed_1_positions_def Let_def)

lemma draw_sample_negative:
  "n < 0 \<Longrightarrow>
   draw_sample env w n G
     = Inl (Exn ''ValueError'' ''A negative number of rows requested. Please provide `n` >= 0.'')"
  by (simp add: draw_sample_def df_sample_def)

subsection \<open>Claim C5: the evaluation sample\<close>

text \<open>
  C5, as the code has it. For every ground-truth table \<open>G\<close> and requested sample size
  \<open>n \<ge> 0\<close>, with NumPy keeping its contract for a seeded permutation: the sample is the rows
  of \<open>G\<close> at the first \<open>min(n, |G|)\<close> positions of the permutation of \<open>range(|G|)\<close> that the
  generator seeded with 1 produces. These positions are pairwise different (the sample is
  without replacement) and inside the table, and there are exactly \<open>min(n, |G|)\<close> of them.
  The sample depends on \<open>G\<close>, \<open>n\<close> and the seed alone, not on the state of the run: two runs
  that read the same \<open>G\<close>, whatever happened before them, evaluate this same sample.
\<close>

theorem sample_is_seed_1_prefix:
  "permutation_contract env \<Longrightarrow> 0 \<le> n \<Longrightarrow>
   draw_sample env w n G = Inr (map (\<lambda>i. G ! i) (seed_1_positions env n (length G)))
   \<and> seed_1_positions env n (length G)
       = take (nat (min n (int (length G)))) (seeded_permutation env 1 (length G))
   \<and> distinct (seed_1_positions env n (length G))
   \<and> (\<forall>i\<in>set (seed_1_positions env n (length G)). i < length G)
   \<and> length (seed_1_positions env n (length G)) = nat (min n (int (length G)))
   \<and> (\<forall>rag (v::world) (v'::world).
         read_csv env (calls v) ''data/ground-truth-retrieval.csv'' = Inr G
           \<and> read_csv env (calls v') ''data/ground-truth-retrieval.csv'' = Inr G
         \<longrightarrow> evaluate_rag env rag n v
               = evaluate_sample env rag (map (\<lambda>i. G ! i) (seed_1_positions env n (length G)))
                   (called (ReadCsv ''data/ground-truth-retrieval.csv'') v)
             \<and> evaluate_rag env rag n v'
               = evaluate_sample env rag (map (\<lambda>i. G ! i) (seed_1_positions env n (length G)))
                   (called (ReadCsv ''data/ground-truth-retrieval.csv'') v'))"
proof (intro conjI allI impI)
  assume c: "permutation_contract env" and n: "0 \<le> n"
  show "draw_sample env w n G = Inr (map (\<lambda>i. G ! i) (seed_1_positions env n (length G)))"
    using n by (rule draw_sample_seeded)
  show "seed_1_positions env n (length G)
       = take (nat (min n (int (length G)))) (seeded_permutation env 1 (length G))"
    by (simp add: seed_1_positions_def)
  show "distinct (seed_1_positions env n (length G))"
    using c by (rule seed_1_positions_props)
  show "\<forall>i\<in>set (seed_1_positions env n (length G)). i < length G"
    using c by (rule seed_1_positions_props)
  show "length (seed_1_positions env n (length G)) = nat (min n (int (length G)))"
    using c n by (rule seed_1_positions_props)
  fix rag and v :: world and v' :: world
  assume h: "read_csv env (calls v) ''data/ground-truth-retrieval.csv'' = Inr G
           \<and> read_csv env (calls v') ''data/ground-truth-retrieval.csv'' = Inr G"
  show "evaluate_rag env rag n v
               = evaluate_sample env rag (map (\<lambda>i. G ! i) (seed_1_positions env n (length G)))
                   (called (ReadCsv ''data/ground-truth-retrieval.csv'') v)"
    using h [THEN conjunct1] draw_sample_seeded [OF n] by (rule evaluate_rag_on_sample)
  show "evaluate_rag env rag n v'
               = evaluate_sample env rag (map (\<lambda>i. G ! i) (seed_1_positions env n (length G)))
                   (called (ReadCsv ''data/ground-truth-retrieval.csv'') v')"
    using h [THEN conjunct2] draw_sample_seeded [OF n] by (rule evaluate_rag_on_sample)
qed

lemma env_three_rows_contract: "permutation_contract env_three_rows"
  by (simp add: permutation_contract_def env_three_rows_def)

lemma env_three_rows_simps:
  "read_csv env_three_rows c f = Inr three_rows"
  "seeded_permutation env_three_rows seed 3 = [2, 0, 1]"
  by (simp_all add: env_three_rows_def upt3 eval_nat_numeral)

lemma three_rows_simps:
  "length three_rows = 3"
  "three_rows ! 2 = (''ghi'', ''How do magnets work?'')"
  "three_rows ! 0 = (''abc'', ''What do bees do?'')"
  by (simp_all add: three_rows_def)

lemma env_three_rows_positions: "seed_1_positions env_three_rows 2 3 = [2, 0]"
  by (simp add: seed_1_positions_def env_three_rows_simps)

text \<open>
  C5, witness: a table of three rows, a generator whose permutation under seed 1 is
  \<open>[2, 0, 1]\<close>, and the sample size 2. The sample is the third row followed by the first,
  in a fresh run and in a run that starts after another call.
\<close>

theorem sample_is_seed_1_prefix_witness:
  "permutation_contract env_three_rows \<and> (0::int) \<le> 2
   \<and> draw_sample env_three_rows w0 2 three_rows
       = Inr [(''ghi'', ''How do magnets work?''), (''abc'', ''What do bees do?'')]
   \<and> evaluate_rag env_three_rows rag3 2 w0
       = evaluate_sample env_three_rows rag3
           [(''ghi'', ''How do magnets work?''), (''abc'', ''What do bees do?'')]
           (called (ReadCsv ''data/ground-truth-retrieval.csv'') w0)
   \<and> evaluate_rag env_three_rows rag3 2 (called (GetVideo ''abc'') w0)
       = evaluate_sample env_three_rows rag3
           [(''ghi'', ''How do magnets work?''), (''abc'', ''What do bees do?'')]
           (called (ReadCsv ''data/ground-truth-retrieval.csv'') (called (GetVideo ''abc'') w0))"
proof -
  have n: "(0::int) \<le> 2" by simp
  have s: "map (\<lambda>i. three_rows ! i) (seed_1_positions env_three_rows 2 (length three_rows))
      = [(''ghi'', ''How do magnets work?''), (''abc'', ''What do bees do?'')]"
    by (simp add: three_rows_simps env_three_rows_positions)
  have r: "read_csv env_three_rows (calls w0) ''data/ground-truth-retrieval.csv'' = Inr three_rows
           \<and> read_csv env_three_rows (calls (called (GetVideo ''abc'') w0))
               ''data/ground-truth-retrieval.csv'' = Inr three_rows"
    by (simp add: env_three_rows_simps)
  note T = sample_is_seed_1_prefix [OF env_three_rows_contract n, of w0 three_rows]
  note 1 = T [THEN conjunct1, unfolded s]
  note 2 = T [THEN conjunct2, THEN conjunct2, THEN conjunct2, THEN conjunct2, THEN conjunct2,
      rule_format, OF r, of rag3, unfolded s]
  from env_three_rows_contract n 1 2 show ?thesis by (intro conjI) (erule conjunct1 conjunct2 | assumption)+
qed

text \<open>
  C5, counterexample to the claim as stated: the requested sample size \<open>-1\<close>. The size
  \<open>min(-1, 3) = -1\<close> is passed on to \<open>sample\<close>, which raises \<open>ValueError\<close>; no sample is drawn
  and the exception leaves \<open>evaluate_rag\<close>.
\<close>

theorem negative_sample_size_raises:
  "draw_sample env_three_rows (called (ReadCsv ''data/ground-truth-retrieval.csv'') w0) (- 1)
       three_rows
     = Inl (Exn ''ValueError'' ''A negative number of rows requested. Please provide `n` >= 0.'')
   \<and> fst (evaluate_rag env_three_rows rag3 (- 1) w0)
     = Inl (Exn ''ValueError'' ''A negative number of rows requested. Please provide `n` >= 0.'')"
proof -
  have n: "(- 1 :: int) < 0" by simp
  have r: "read_csv env_three_rows (calls w0) ''data/ground-truth-retrieval.csv'' = Inr three_rows"
    by (simp add: env_three_rows_simps)
  note d = draw_sample_negative [OF n,
      of env_three_rows "called (ReadCsv ''data/ground-truth-retrieval.csv'') w0" three_rows]
  from d evaluate_rag_sample_error [OF r d, of rag3] show ?thesis by (intro conjI)
qed

lemma env_search_down_csv: "read_csv env_search_down n f = Inr [(''abc'', ''What do bees do?'')]"
  by (simp add: env_search_down_def)

lemma one_row_sample:
  "seeded_permutation env 1 (Suc 0) = [0] \<Longrightarrow> draw_sample env w 200 [row] = Inr [row]"
  by (simp add: draw_sample_def df_sample_def Let_def)

lemma env_search_down_permutation: "seeded_permutation env_search_down seed (Suc 0) = [0]"
  by (simp add: env_search_down_def env_down_def)

section \<open>Properties of ground-truth generation\<close>







subsection \<open>Claim C7: a failed ground-truth generation\<close>







section \<open>Properties of the evaluation run\<close>

















subsection \<open>Claim C8: the relevance label of a record\<close>


lemma decode_judge_simps:
  "decode_judge judge_text_non_relevant
     = Inr (JObj [(''Relevance'', JStr ''NON_RELEVANT''),
                  (''Explanation'', JStr ''The answer is an error message.'')])"
  "decode_judge judge_text_unlabelled
     = Inr (JObj [(''Explanation'', JStr ''The answer addresses the question.'')])"
  by (simp_all add: decode_judge_def judge_text_non_relevant_def judge_text_unlabelled_def)

lemma env_search_down_simps:
  "ollama_chat env_search_down c ''phi3.5'' p = Inr judge_text_non_relevant"
  "dp_search env_search_down c q k m i = Inl (Exn ''ConnectionError'' ''search unavailable'')"
  "db_get_index env_search_down c v m = Inr (Some ''video_abc_all-minilm-l6-v2'')"
  "json_loads env_search_down = decode_judge"
  "perform env_search_down c a = None"
  by (simp_all add: env_search_down_def env_down_def)


lemma enumerate_one: "enumerate 0 [x] = [(0, x)]"
  by simp

lemma failed_query_is_judged:
  "fst (evaluate_sample env_search_down rag3 [(''abc'', ''What do bees do?'')] w)
     = Inr (Some [\<lparr>ev_video_id = ''abc'', ev_question = ''What do bees do?'',
                   ev_answer = ''An error occurred: search unavailable'',
                   ev_relevance = ''NON_RELEVANT'',
                   ev_explanation = ''The answer is an error message.''\<rparr>])"
  by (simp add: evaluate_sample_def get_index_def query_def query_body_def search_def
      judge_def chat_def judge_record_def dict_get_def do_action_def is_ConnectionError
      env_search_down_simps decode_judge_simps Let_def)


subsection \<open>Claim C6: an item whose query fails\<close>

text \<open>
  C6, the code at a failing input. The ground truth holds one row, its video has an index,
  the search engine is down and the judge answers with a well-formed verdict. The query
  fails inside \<open>RAGSystem.query\<close>, which returns the error text instead of raising; the loop's
  \<open>except ValueError\<close> never fires, the error text is judged as if it were an answer, and
  the run returns one record for the item instead of skipping it.
\<close>

theorem failed_query_yields_a_record:
  "fst (evaluate_rag env_search_down rag3 200 w0)
     = Inr (Some [\<lparr>ev_video_id = ''abc'', ev_question = ''What do bees do?'',
                   ev_answer = ''An error occurred: search unavailable'',
                   ev_relevance = ''NON_RELEVANT'',
                   ev_explanation = ''The answer is an error message.''\<rparr>])"
proof -
  have d: "draw_sample env_search_down (called (ReadCsv ''data/ground-truth-retrieval.csv'') w0)
         200 [(''abc'', ''What do bees do?'')]
       = Inr [(''abc'', ''What do bees do?'')]"
    by (rule one_row_sample) (rule env_search_down_permutation)
  have r: "read_csv env_search_down (calls w0) ''data/ground-truth-retrieval.csv''
       = Inr [(''abc'', ''What do bees do?'')]"
    by (rule env_search_down_csv)
  from evaluate_rag_on_sample [OF r d, of rag3] failed_query_is_judged
  show ?thesis by simp
qed



end
